theory Spec2Isabelle
  imports Main
begin

section \<open>JavaScript values\<close>

text \<open>
  The handlers of \<^verbatim>\<open>routes/terminal.ts\<close> and \<^verbatim>\<open>routes/chat.ts\<close> work on the results of
  \<^verbatim>\<open>JSON.parse\<close>. A parsed value is a \<open>json\<close>; JavaScript's \<^verbatim>\<open>undefined\<close> is \<open>None\<close>
  of \<open>json option\<close>. An object is the list of its own properties in enumeration order
  (keys distinct, as in a parsed object). Strings are the bytes of their UTF-8 text.

  A number is a double, and the handlers only look at two things of it: whether it is
  zero (truthiness) and how it prints. So a number is kept as the text that JavaScript
  prints for it (\<^verbatim>\<open>String(x)\<close>: \<^verbatim>\<open>0\<close>, \<^verbatim>\<open>-1.5\<close>, \<^verbatim>\<open>1e+21\<close>, \<^verbatim>\<open>9007199254740992\<close>, and
  \<^verbatim>\<open>Infinity\<close> for a literal that overflows). The text determines the number: the rounding
  of a literal to a double is done by \<^verbatim>\<open>JSON.parse\<close>, before the handlers run, and both zeros
  print as \<^verbatim>\<open>0\<close>.
\<close>

datatype json =
    JNull
  | JBool bool
  | JNum string
  | JStr string
  | JArr "json list"
  | JObj "(string \<times> json) list"

type_synonym jsval = "json option"

text \<open>Truthiness, as used by \<^verbatim>\<open>if (x)\<close>, \<^verbatim>\<open>x && y\<close> and \<^verbatim>\<open>x || y\<close>.\<close>

fun truthy :: "jsval \<Rightarrow> bool" where
  "truthy None = False"
| "truthy (Some JNull) = False"
| "truthy (Some (JBool b)) = b"
| "truthy (Some (JNum t)) = (t \<noteq> ''0'')"
| "truthy (Some (JStr s)) = (s \<noteq> [])"
| "truthy (Some (JArr xs)) = True"
| "truthy (Some (JObj kvs)) = True"

text \<open>
  The integers that the server itself puts into a frame are the values of \<^verbatim>\<open>Date.now()\<close>
  (at most 8.64e15 in absolute value), the exit code of a process (a machine integer) and
  the constants 80 and 24. JavaScript prints an integer below 1e21 in absolute value in
  decimal, which is \<open>show_int\<close>.
\<close>

function digits :: "nat \<Rightarrow> string" where
  "digits n = (if n < 10 then [char_of (48 + n)] else digits (n div 10) @ [char_of (48 + n mod 10)])"
  by pat_completeness auto
termination
  by (relation "measure (\<lambda>n. n)") auto

declare digits.simps [simp del]

definition show_int :: "int \<Rightarrow> string" where
  "show_int i = (if i < 0 then CHR ''-'' # digits (nat (- i)) else digits (nat i))"

definition js_int :: "int \<Rightarrow> json" where
  "js_int n = JNum (show_int n)"


text \<open>
  Property reads. \<^verbatim>\<open>v.k\<close> raises a TypeError when \<open>v\<close> is \<^verbatim>\<open>null\<close> or \<^verbatim>\<open>undefined\<close>
  (\<open>Inl TypeError\<close>); on any other value that is not an object none of the keys read by the handlers
  exists, and the read gives \<^verbatim>\<open>undefined\<close>. \<^verbatim>\<open>v?.k\<close> gives \<^verbatim>\<open>undefined\<close> instead of raising.
\<close>

datatype js_error = TypeError | SystemError

fun own_prop :: "json \<Rightarrow> string \<Rightarrow> jsval" where
  "own_prop (JObj kvs) k = map_of kvs k"
| "own_prop v k = None"

fun get_prop :: "jsval \<Rightarrow> string \<Rightarrow> js_error + jsval" where
  "get_prop None k = Inl TypeError"
| "get_prop (Some JNull) k = Inl TypeError"
| "get_prop (Some v) k = Inr (own_prop v k)"


text \<open>
  An object literal whose fields may be \<^verbatim>\<open>undefined\<close>, as \<^verbatim>\<open>JSON.stringify\<close> sees it:
  fields holding \<^verbatim>\<open>undefined\<close> are left out.
\<close>

fun object_of :: "(string \<times> jsval) list \<Rightarrow> (string \<times> json) list" where
  "object_of [] = []"
| "object_of ((k, None) # fs) = object_of fs"
| "object_of ((k, Some v) # fs) = (k, v) # object_of fs"

section \<open>WebSocket connections\<close>

text \<open>
  A socket of the \<^verbatim>\<open>ws\<close> library: its \<^verbatim>\<open>readyState\<close>, the frames handed to \<^verbatim>\<open>send\<close> while it
  was open (each frame is the object given to \<^verbatim>\<open>JSON.stringify\<close>), and the code and reason
  of \<^verbatim>\<open>close\<close>. A frame handed to \<^verbatim>\<open>send\<close> on a socket that is not open is not delivered;
  \<^verbatim>\<open>close\<close> on an open socket starts the closing handshake, and does nothing on a socket that
  is closing or closed.
\<close>

datatype ready_state = CONNECTING | OPEN | CLOSING | CLOSED

record socket =
  readyState :: ready_state
  sent :: "json list"
  closed_with :: "(int \<times> string) option"

definition ws_send :: "json \<Rightarrow> socket \<Rightarrow> socket" where
  "ws_send frame k = (if readyState k = OPEN then k\<lparr>sent := sent k @ [frame]\<rparr> else k)"


section \<open>Persistence\<close>

text \<open>
  The \<^verbatim>\<open>terminal_sessions\<close> table of \<^verbatim>\<open>db/index.ts\<close> and its accessors. Field names carry
  the prefix \<open>ts_\<close>.
\<close>

datatype session_status = Created | Running | Stopped | Error

record TerminalSession =
  ts_id :: string
  ts_user_id :: string
  ts_container_id :: "string option"
  ts_workspace_path :: string
  ts_project_name :: "string option"
  ts_status :: session_status
  ts_created_at :: int
  ts_last_activity_at :: int

record User =
  u_id :: string
  u_email :: string

text \<open>
  \<^verbatim>\<open>Partial<TerminalSession>\<close> restricted to the fields \<^verbatim>\<open>updateTerminalSession\<close> lets through
  (\<^verbatim>\<open>allowedFields\<close>); a field that is not set is \<open>None\<close>.
\<close>

record session_updates =
  set_container_id :: "string option option"
  set_status :: "session_status option"
  set_last_activity_at :: "int option"
  set_project_name :: "string option option"

definition no_updates :: session_updates where
  "no_updates = \<lparr>set_container_id = None, set_status = None,
                  set_last_activity_at = None, set_project_name = None\<rparr>"

definition apply_updates :: "session_updates \<Rightarrow> TerminalSession \<Rightarrow> TerminalSession" where
  "apply_updates u r =
     r\<lparr>ts_container_id := (case set_container_id u of None \<Rightarrow> ts_container_id r | Some v \<Rightarrow> v),
       ts_status := (case set_status u of None \<Rightarrow> ts_status r | Some v \<Rightarrow> v),
       ts_last_activity_at :=
         (case set_last_activity_at u of None \<Rightarrow> ts_last_activity_at r | Some v \<Rightarrow> v),
       ts_project_name := (case set_project_name u of None \<Rightarrow> ts_project_name r | Some v \<Rightarrow> v)\<rparr>"

definition getTerminalSession :: "TerminalSession list \<Rightarrow> string \<Rightarrow> TerminalSession option" where
  "getTerminalSession tbl sid = find (\<lambda>r. ts_id r = sid) tbl"


definition updateTerminalSession ::
  "string \<Rightarrow> session_updates \<Rightarrow> TerminalSession list \<Rightarrow> TerminalSession list" where
  "updateTerminalSession sid u tbl =
     (if u = no_updates then tbl
      else map (\<lambda>r. if ts_id r = sid then apply_updates u r else r) tbl)"

section \<open>Paths\<close>

text \<open>
  \<^verbatim>\<open>path.join\<close> of Node (POSIX): the non-empty arguments are joined with \<^verbatim>\<open>/\<close> and the result
  is normalised (\<^verbatim>\<open>.\<close> and empty segments dropped, \<^verbatim>\<open>..\<close> resolved, a trailing separator
  kept).
\<close>

fun split_on :: "char \<Rightarrow> string \<Rightarrow> string list" where
  "split_on c [] = [[]]"
| "split_on c (x # xs) =
     (if x = c then [] # split_on c xs
      else (case split_on c xs of [] \<Rightarrow> [[x]] | h # t \<Rightarrow> (x # h) # t))"

fun join_with :: "string \<Rightarrow> string list \<Rightarrow> string" where
  "join_with sep [] = []"
| "join_with sep [x] = x"
| "join_with sep (x # y # ys) = x @ sep @ join_with sep (y # ys)"

definition norm_step :: "bool \<Rightarrow> string list \<Rightarrow> string \<Rightarrow> string list" where
  "norm_step isAbsolute st seg =
     (if seg = [] \<or> seg = ''.'' then st
      else if seg = ''..'' then
        (if st \<noteq> [] \<and> last st \<noteq> ''..'' then butlast st
         else if isAbsolute then st else st @ [''..''])
      else st @ [seg])"

definition path_normalize :: "string \<Rightarrow> string" where
  "path_normalize p =
     (if p = [] then ''.''
      else
        let isAbsolute = (hd p = CHR ''/'');
            trailingSeparator = (last p = CHR ''/'');
            q = join_with ''/'' (foldl (norm_step isAbsolute) [] (split_on CHR ''/'' p))
        in if q = [] then (if isAbsolute then ''/'' else if trailingSeparator then ''./'' else ''.'')
           else (if isAbsolute then ''/'' else []) @ q @ (if trailingSeparator then ''/'' else []))"

definition path_join :: "string list \<Rightarrow> string" where
  "path_join args =
     (case filter (\<lambda>a. a \<noteq> []) args of
        [] \<Rightarrow> ''.''
      | xs \<Rightarrow> path_normalize (join_with ''/'' xs))"

section \<open>Server state\<close>

text \<open>
  The module-level maps \<^verbatim>\<open>activePtys\<close> (terminal.ts) and \<^verbatim>\<open>activeProcesses\<close> (chat.ts), the
  processes spawned so far (a process is named by its index in the list of spawns), the
  sockets, and the database tables the handlers read and write.

  A PTY keeps the listeners registered with \<^verbatim>\<open>onData\<close> and \<^verbatim>\<open>onExit\<close>; each listener is a closure
  over the socket of the connection that registered it (and, for \<^verbatim>\<open>exitHandler\<close>, over the
  session id).
\<close>

record IPty =
  pty_file :: string
  pty_cwd :: string
  pty_env :: "string \<rightharpoonup> string"
  pty_size :: "json \<times> json"
  pty_written :: "json list"
  pty_killed :: bool
  onData :: "nat list"
  onExit :: "(nat \<times> string) list"

record ChildProcess =
  cp_command :: string
  cp_args :: "string list"
  cp_cwd :: string
  cp_env :: "string \<rightharpoonup> string"
  cp_signals :: "string list"

text \<open>
  The file system and git are outside the program. The state keeps the calls made to them
  (\<open>fs_calls\<close>, in order); what a call answers is given by a \<open>world\<close>, as a function of
  the calls made before it: whether a path exists, and whether a call returns (it raises
  otherwise).
\<close>

datatype fs_call =
    MkdirSync string
  | WriteFileSync string string
  | RmSync string
  | Git "string list" "string option"

record world =
  existsSync :: "fs_call list \<Rightarrow> string \<Rightarrow> bool"
  returns :: "fs_call list \<Rightarrow> fs_call \<Rightarrow> bool"

record Repository =
  r_id :: string
  r_user_id :: string
  r_local_path :: string

record Workspace =
  w_id :: string
  w_repository_id :: string
  w_branch :: string
  w_directory_path :: string

record server =
  activePtys :: "string \<rightharpoonup> nat"
  ptys :: "IPty list"
  activeProcesses :: "string \<rightharpoonup> nat"
  children :: "ChildProcess list"
  sockets :: "nat \<Rightarrow> socket"
  terminal_sessions :: "TerminalSession list"
  auth_sessions :: "string \<rightharpoonup> User"
  repositories :: "Repository list"
  workspaces :: "Workspace list"
  fs_calls :: "fs_call list"

text \<open>
  What the handlers read from the process and the configuration. The maximum of sessions
  per user is taken to be an integer.
\<close>

record environment =
  process_env :: "string \<rightharpoonup> string"
  claudeConfigPath :: string
  maxSessionsPerUser :: int
  workspaceBasePath :: string

definition on_socket :: "nat \<Rightarrow> (socket \<Rightarrow> socket) \<Rightarrow> server \<Rightarrow> server" where
  "on_socket k f s = s\<lparr>sockets := (sockets s)(k := f (sockets s k))\<rparr>"

definition on_pty :: "nat \<Rightarrow> (IPty \<Rightarrow> IPty) \<Rightarrow> server \<Rightarrow> server" where
  "on_pty p f s = (if p < length (ptys s) then s\<lparr>ptys := (ptys s)[p := f (ptys s ! p)]\<rparr> else s)"

definition on_child :: "nat \<Rightarrow> (ChildProcess \<Rightarrow> ChildProcess) \<Rightarrow> server \<Rightarrow> server" where
  "on_child c f s =
     (if c < length (children s) then s\<lparr>children := (children s)[c := f (children s ! c)]\<rparr> else s)"

text \<open>A call to the file system or to git: it is recorded, and the world says whether it returns.\<close>

definition fs_do :: "world \<Rightarrow> fs_call \<Rightarrow> server \<Rightarrow> bool \<times> server" where
  "fs_do W c s = (returns W (fs_calls s) c, s\<lparr>fs_calls := fs_calls s @ [c]\<rparr>)"

definition db_update :: "string \<Rightarrow> session_updates \<Rightarrow> server \<Rightarrow> server" where
  "db_update sid u s = s\<lparr>terminal_sessions := updateTerminalSession sid u (terminal_sessions s)\<rparr>"


text \<open>\<^verbatim>\<open>process.env.X || d\<close>\<close>

definition env_or :: "(string \<rightharpoonup> string) \<Rightarrow> string \<Rightarrow> string \<Rightarrow> string" where
  "env_or env x d = (case env x of None \<Rightarrow> d | Some v \<Rightarrow> if v = [] then d else v)"

section \<open>PTY session controller (routes/terminal.ts)\<close>





definition pong_frame :: json where
  "pong_frame = JObj [(''type'', JStr ''pong'')]"









text \<open>
  The socket's message handler. \<open>raw\<close> is the result of \<^verbatim>\<open>JSON.parse\<close> (\<open>None\<close> when it
  raises); \<open>p\<close> is the connection's \<^verbatim>\<open>ptyProcess\<close>; \<open>now\<close> is \<^verbatim>\<open>Date.now()\<close>.

  The frame is not validated, so \<^verbatim>\<open>data\<close>, \<^verbatim>\<open>cols\<close> and \<^verbatim>\<open>rows\<close> are whatever was parsed.
  \<^verbatim>\<open>ptyProcess.write\<close> hands its argument to the stream of the PTY, which raises on anything
  but a string; \<^verbatim>\<open>ptyProcess.resize\<close> raises unless both sizes are numbers, greater than zero
  and finite. An exception ends in the \<^verbatim>\<open>catch\<close>, which logs: what was to follow in the
  \<^verbatim>\<open>try\<close> (the update of the last activity) does not happen, and the state is as before.
  A PTY that has exited is not told apart from a running one here.
\<close>

fun positive_size :: "json \<Rightarrow> bool" where
  "positive_size (JNum t) = (t \<noteq> [] \<and> t \<noteq> ''0'' \<and> hd t \<noteq> CHR ''-'' \<and> t \<noteq> ''Infinity'')"
| "positive_size v = False"

definition terminal_message :: "nat \<Rightarrow> string \<Rightarrow> nat \<Rightarrow> int \<Rightarrow> json option \<Rightarrow> server \<Rightarrow> server" where
  "terminal_message k sessionId p now raw s =
     (case raw of
        None \<Rightarrow> s
      | Some message \<Rightarrow>
          (case get_prop (Some message) ''type'' of
             Inl e \<Rightarrow> s
           | Inr ty \<Rightarrow>
               if ty = Some (JStr ''input'') then
                 (case own_prop message ''data'' of
                    None \<Rightarrow> s
                  | Some d \<Rightarrow>
                      if truthy (Some d)
                      then
                        (case d of
                           JStr x \<Rightarrow>
                             db_update sessionId
                               (no_updates\<lparr>set_last_activity_at := Some (now div 1000)\<rparr>)
                               (on_pty p (\<lambda>t. t\<lparr>pty_written := pty_written t @ [JStr x]\<rparr>) s)
                         | _ \<Rightarrow> s)
                      else s)
               else if ty = Some (JStr ''resize'') then
                 (case (own_prop message ''cols'', own_prop message ''rows'') of
                    (Some c, Some r) \<Rightarrow>
                      if truthy (Some c) \<and> truthy (Some r)
                      then
                        (if positive_size c \<and> positive_size r
                         then on_pty p (\<lambda>t. t\<lparr>pty_size := (c, r)\<rparr>) s
                         else s)
                      else s
                  | _ \<Rightarrow> s)
               else if ty = Some (JStr ''ping'') then on_socket k (ws_send pong_frame) s
               else s))"

text \<open>The socket's close handler: it only logs.\<close>

definition terminal_close :: "nat \<Rightarrow> string \<Rightarrow> server \<Rightarrow> server" where
  "terminal_close k sessionId s = s"

text \<open>\<^verbatim>\<open>POST /:sessionId/kill\<close> and \<^verbatim>\<open>GET /:sessionId/status\<close>, after \<^verbatim>\<open>fastify.authenticate\<close>.\<close>

definition terminal_kill :: "User \<Rightarrow> string \<Rightarrow> server \<Rightarrow> (string + unit) \<times> server" where
  "terminal_kill user sessionId s =
     (case getTerminalSession (terminal_sessions s) sessionId of
        None \<Rightarrow> (Inl ''Session not found'', s)
      | Some session \<Rightarrow>
          if ts_user_id session \<noteq> u_id user then (Inl ''Session not found'', s)
          else
            (case activePtys s sessionId of
               None \<Rightarrow> (Inr (), s)
             | Some p \<Rightarrow>
                 (let s1 = on_pty p (\<lambda>t. t\<lparr>pty_killed := True\<rparr>) s;
                      s2 = s1\<lparr>activePtys := (activePtys s1)(sessionId := None)\<rparr>
                  in (Inr (), db_update sessionId (no_updates\<lparr>set_status := Some Stopped\<rparr>) s2))))"

record status_reply =
  sr_sessionId :: string
  sr_status :: session_status
  sr_hasActivePty :: bool

definition terminal_status :: "User \<Rightarrow> string \<Rightarrow> server \<Rightarrow> string + status_reply" where
  "terminal_status user sessionId s =
     (case getTerminalSession (terminal_sessions s) sessionId of
        None \<Rightarrow> Inl ''Session not found''
      | Some session \<Rightarrow>
          if ts_user_id session \<noteq> u_id user then Inl ''Session not found''
          else
            (let isRunning = (activePtys s sessionId \<noteq> None)
             in Inr \<lparr>sr_sessionId = sessionId,
                     sr_status = (if isRunning then Running else ts_status session),
                     sr_hasActivePty = isRunning\<rparr>))"

section \<open>Serialisation\<close>






section \<open>Assistant process controller (routes/chat.ts)\<close>

text \<open>
  \<^verbatim>\<open>sendMessage\<close>: the message is an object literal (fields in the order of the literal,
  some of them possibly \<^verbatim>\<open>undefined\<close>); it is serialised and sent while the socket is open.
\<close>

definition sendMessage :: "(string \<times> jsval) list \<Rightarrow> socket \<Rightarrow> socket" where
  "sendMessage message k =
     (if readyState k = OPEN then ws_send (JObj (object_of message)) k else k)"

definition getUserClaudeConfigDir :: "environment \<Rightarrow> string \<Rightarrow> string" where
  "getUserClaudeConfigDir E userId =
     path_join [env_or (process_env E) ''HOME'' ''/tmp'', ''.claudelet-users'', userId]"



text \<open>
  \<^verbatim>\<open>ensureUserConfigDir\<close> creates the directory when it does not exist; \<^verbatim>\<open>mkdirSync\<close> may raise.
\<close>

definition ensureUserConfigDir :: "environment \<Rightarrow> world \<Rightarrow> string \<Rightarrow> server \<Rightarrow> bool \<times> server" where
  "ensureUserConfigDir E W userId s =
     (let configDir = getUserClaudeConfigDir E userId
      in if existsSync W (fs_calls s) configDir then (True, s)
         else fs_do W (MkdirSync configDir) s)"

text \<open>
  The environment of the spawned assistant: \<^verbatim>\<open>process.env\<close> without \<^verbatim>\<open>ANTHROPIC_API_KEY\<close>,
  overridden by the six entries of the \<^verbatim>\<open>env\<close> literal. \<^verbatim>\<open>process.env.PATH + ":/usr/local/bin"\<close>
  is string concatenation, which renders a missing \<^verbatim>\<open>PATH\<close> as \<^verbatim>\<open>undefined\<close>.
\<close>

definition claude_env :: "environment \<Rightarrow> string \<Rightarrow> (string \<rightharpoonup> string)" where
  "claude_env E userId =
     (let claudeEnv = (process_env E)(''ANTHROPIC_API_KEY'' := None);
          userClaudeConfig = getUserClaudeConfigDir E userId
      in claudeEnv
           (''PATH'' \<mapsto> (case process_env E ''PATH'' of None \<Rightarrow> ''undefined'' | Some v \<Rightarrow> v)
                         @ '':/usr/local/bin'',
            ''HOME'' \<mapsto> userClaudeConfig,
            ''CLAUDE_CONFIG_DIR'' \<mapsto> userClaudeConfig,
            ''CLAUDE_CODE_REMOTE'' \<mapsto> ''1'',
            ''NO_COLOR'' \<mapsto> ''1'',
            ''FORCE_COLOR'' \<mapsto> ''0''))"

definition spawn_claude :: "environment \<Rightarrow> string \<Rightarrow> string \<Rightarrow> string \<Rightarrow> ChildProcess" where
  "spawn_claude E workspacePath userId content =
     \<lparr>cp_command = ''/usr/local/bin/claude'',
      cp_args = [''--print'', ''--verbose'', ''--output-format'', ''stream-json'',
                 ''--dangerously-skip-permissions'', ''-p'', content],
      cp_cwd = workspacePath,
      cp_env = claude_env E userId,
      cp_signals = []\<rparr>"

definition handleUserMessage ::
  "environment \<Rightarrow> world \<Rightarrow> int \<Rightarrow> nat \<Rightarrow> string \<Rightarrow> string \<Rightarrow> string \<Rightarrow> string \<Rightarrow> server
     \<Rightarrow> server \<times> js_error option" where
  "handleUserMessage E W now k sessionId workspacePath userId content s =
     (let s1 = on_socket k (sendMessage [(''type'', Some (JStr ''user'')),
                                         (''content'', Some (JStr content)),
                                         (''timestamp'', Some (js_int now))]) s;
          s2 = on_socket k (sendMessage [(''type'', Some (JStr ''status'')),
                                         (''status'', Some (JStr ''thinking''))]) s1;
          (made, s3) = ensureUserConfigDir E W userId s2
      in if \<not> made then (s3, Some SystemError)
         else
           (let claudeProcess = length (children s3);
                s4 = s3\<lparr>children := children s3 @ [spawn_claude E workspacePath userId content]\<rparr>
            in (s4\<lparr>activeProcesses := (activeProcesses s4)(sessionId \<mapsto> claudeProcess)\<rparr>, None)))"

definition abortCurrentProcess :: "string \<Rightarrow> server \<Rightarrow> server" where
  "abortCurrentProcess sessionId s =
     (case activeProcesses s sessionId of
        None \<Rightarrow> s
      | Some c \<Rightarrow>
          (let s1 = on_child c (\<lambda>t. t\<lparr>cp_signals := cp_signals t @ [''SIGTERM'']\<rparr>) s
           in s1\<lparr>activeProcesses := (activeProcesses s1)(sessionId := None)\<rparr>))"

text \<open>
  The message handler of the chat socket. \<open>raw\<close> is the result of \<^verbatim>\<open>JSON.parse\<close> (\<open>None\<close>
  when it raises). The log line reads \<^verbatim>\<open>message.type\<close> and \<^verbatim>\<open>message.content?.slice(0, 100)\<close>,
  which raises on a content that is a number, a boolean or an object; every exception ends
  in the \<^verbatim>\<open>catch\<close>, which answers \<^verbatim>\<open>Invalid message format\<close>. A \<^verbatim>\<open>user\<close> message whose content
  is an array reaches \<^verbatim>\<open>spawn\<close> with an argument that is not a string; that case is left
  out of the model (\<open>None\<close>).
\<close>

definition invalid_format :: "nat \<Rightarrow> server \<Rightarrow> server" where
  "invalid_format k s =
     on_socket k (sendMessage [(''type'', Some (JStr ''error'')),
                               (''content'', Some (JStr ''Invalid message format''))]) s"

fun slice_raises :: "jsval \<Rightarrow> bool" where
  "slice_raises (Some (JNum n)) = True"
| "slice_raises (Some (JBool b)) = True"
| "slice_raises (Some (JObj kvs)) = True"
| "slice_raises v = False"

definition chat_message ::
  "environment \<Rightarrow> world \<Rightarrow> int \<Rightarrow> nat \<Rightarrow> string \<Rightarrow> string \<Rightarrow> string \<Rightarrow> json option \<Rightarrow> server
     \<Rightarrow> server option" where
  "chat_message E W now k sessionId workspacePath userId raw s =
     (case raw of
        None \<Rightarrow> Some (invalid_format k s)
      | Some message \<Rightarrow>
          (case get_prop (Some message) ''type'' of
             Inl e \<Rightarrow> Some (invalid_format k s)
           | Inr ty \<Rightarrow>
               (let content = own_prop message ''content''
                in if slice_raises content then Some (invalid_format k s)
                   else if ty = Some (JStr ''user'') \<and> truthy content then
                     (case content of
                        Some (JStr c) \<Rightarrow>
                          (case handleUserMessage E W now k sessionId workspacePath userId c s of
                             (s', None) \<Rightarrow> Some s'
                           | (s', Some e) \<Rightarrow> Some (invalid_format k s'))
                      | _ \<Rightarrow> None)
                   else if ty = Some (JStr ''ping'') then Some (on_socket k (ws_send pong_frame) s)
                   else if ty = Some (JStr ''abort'') then Some (abortCurrentProcess sessionId s)
                   else Some s)))"

text \<open>The close handler of the chat socket.\<close>

definition chat_close :: "nat \<Rightarrow> string \<Rightarrow> server \<Rightarrow> server" where
  "chat_close k sessionId s = abortCurrentProcess sessionId s"

section \<open>Session creation (routes/sessions.ts)\<close>





section \<open>Workspace creation (routes/repositories.ts)\<close>

text \<open>
  Modelled from the spec: \<^verbatim>\<open>getRepository\<close>, \<^verbatim>\<open>getWorkspaceByBranch\<close> and \<^verbatim>\<open>createWorkspace\<close> of
  the database module are not in the sources at hand (the routes import them). A Repository
  is looked up by its id. A Workspace is persisted with its id, repository id, branch and
  directory; the lookup is by the pair (repository id, branch); the insert raises when the
  id is taken.
\<close>

definition getRepository :: "Repository list \<Rightarrow> string \<Rightarrow> Repository option" where
  "getRepository tbl rid = find (\<lambda>r. r_id r = rid) tbl"

definition getWorkspaceByBranch :: "Workspace list \<Rightarrow> string \<Rightarrow> string \<Rightarrow> Workspace option" where
  "getWorkspaceByBranch tbl rid branch =
     find (\<lambda>w. w_repository_id w = rid \<and> w_branch w = branch) tbl"

definition createWorkspace ::
  "string \<Rightarrow> string \<Rightarrow> string \<Rightarrow> string \<Rightarrow> Workspace list \<Rightarrow> (Workspace \<times> Workspace list) option" where
  "createWorkspace wid rid branch directory_path tbl =
     (if \<exists>w \<in> set tbl. w_id w = wid then None
      else
        (let row = \<lparr>w_id = wid, w_repository_id = rid, w_branch = branch,
                     w_directory_path = directory_path\<rparr>
         in Some (row, tbl @ [row])))"

text \<open>\<^verbatim>\<open>execGit\<close> runs git and raises when it exits with a code other than 0.\<close>

definition execGit :: "world \<Rightarrow> string list \<Rightarrow> string option \<Rightarrow> server \<Rightarrow> bool \<times> server" where
  "execGit W args cwd s = fs_do W (Git args cwd) s"

text \<open>
  \<^verbatim>\<open>createWorktree\<close>: the local branch, then the remote branch, then a new branch; the result
  tells whether the last attempt made returned.
\<close>

definition createWorktree :: "world \<Rightarrow> string \<Rightarrow> string \<Rightarrow> string \<Rightarrow> server \<Rightarrow> bool \<times> server" where
  "createWorktree W repoPath worktreePath branch s =
     (let (ok1, s1) = execGit W [''rev-parse'', ''--verify'', branch] (Some repoPath) s;
          (ok2, s2) = (if ok1 then execGit W [''worktree'', ''add'', worktreePath, branch] (Some repoPath) s1
                       else (False, s1))
      in if ok2 then (True, s2)
         else
           (let (ok3, s3) = execGit W [''worktree'', ''add'', worktreePath, ''-b'', branch,
                                        ''origin/'' @ branch] (Some repoPath) s2
            in if ok3 then (True, s3)
               else execGit W [''worktree'', ''add'', ''-b'', branch, worktreePath] (Some repoPath) s3))"

definition removeWorktree :: "world \<Rightarrow> string \<Rightarrow> string \<Rightarrow> server \<Rightarrow> server" where
  "removeWorktree W repoPath worktreePath s =
     snd (execGit W [''worktree'', ''remove'', worktreePath, ''--force''] (Some repoPath) s)"

text \<open>\<^verbatim>\<open>path.dirname\<close> of a path that \<^verbatim>\<open>path.join\<close> returned (no trailing separator).\<close>

definition path_dirname :: "string \<Rightarrow> string" where
  "path_dirname p =
     (let d = rev (drop 1 (dropWhile (\<lambda>c. c \<noteq> CHR ''/'') (rev p)))
      in if CHR ''/'' \<notin> set p then ''.'' else if d = [] then ''/'' else d)"

datatype workspace_reply =
    WorkspaceCreated Workspace
  | WorkspaceRejected int string

text \<open>
  \<^verbatim>\<open>POST /:id/workspaces\<close> after \<^verbatim>\<open>fastify.authenticate\<close>. \<open>workspaceId\<close> is the value of
  \<^verbatim>\<open>nanoid()\<close>; \<open>branch\<close> is the field of the request body (\<open>None\<close> when it is missing).
\<close>

definition create_workspace ::
  "environment \<Rightarrow> world \<Rightarrow> string \<Rightarrow> User \<Rightarrow> string \<Rightarrow> string option \<Rightarrow> server
     \<Rightarrow> workspace_reply \<times> server" where
  "create_workspace E W workspaceId user rid branch s =
     (case branch of
        None \<Rightarrow> (WorkspaceRejected 400 ''branch is required'', s)
      | Some b \<Rightarrow>
          if b = [] then (WorkspaceRejected 400 ''branch is required'', s)
          else
            (case getRepository (repositories s) rid of
               None \<Rightarrow> (WorkspaceRejected 404 ''Repository not found'', s)
             | Some repo \<Rightarrow>
                 if r_user_id repo \<noteq> u_id user
                 then (WorkspaceRejected 404 ''Repository not found'', s)
                 else
                   (case getWorkspaceByBranch (workspaces s) rid b of
                      Some existing \<Rightarrow>
                        (WorkspaceRejected 409 ''Workspace already exists for this branch'', s)
                    | None \<Rightarrow>
                        (let worktreePath =
                               path_join [workspaceBasePath E, u_id user, ''workspaces'', workspaceId];
                             cleanup = (\<lambda>t.
                               let t1 = removeWorktree W (r_local_path repo) worktreePath t
                               in if existsSync W (fs_calls t1) worktreePath
                                  then snd (fs_do W (RmSync worktreePath) t1) else t1);
                             failed = WorkspaceRejected 500 ''Failed to create workspace'';
                             (ok1, s1) = fs_do W (MkdirSync (path_dirname worktreePath)) s
                         in if \<not> ok1 then (failed, cleanup s1)
                            else
                              (let (ok2, s2) = createWorktree W (r_local_path repo) worktreePath b s1
                               in if \<not> ok2 then (failed, cleanup s2)
                                  else
                                    (case createWorkspace workspaceId rid b worktreePath (workspaces s2) of
                                       None \<Rightarrow> (failed, cleanup s2)
                                     | Some (workspace, tbl) \<Rightarrow>
                                         (WorkspaceCreated workspace, s2\<lparr>workspaces := tbl\<rparr>)))))))"

section \<open>Notions used by the properties\<close>

text \<open>
  User ids are made by \<^verbatim>\<open>nanoid()\<close> (routes/auth.ts): non-empty strings over letters,
  digits, \<^verbatim>\<open>_\<close> and \<^verbatim>\<open>-\<close>. What matters of an id below is that it is a path segment of its
  own: not empty, without a separator, and neither \<^verbatim>\<open>.\<close> nor \<^verbatim>\<open>..\<close>.
\<close>

definition plain_segment :: "string \<Rightarrow> bool" where
  "plain_segment u = (u \<noteq> [] \<and> CHR ''/'' \<notin> set u \<and> u \<noteq> ''.'' \<and> u \<noteq> ''..'')"





text \<open>At most one Workspace per pair of repository id and branch.\<close>

definition one_workspace_per_branch :: "Workspace list \<Rightarrow> bool" where
  "one_workspace_per_branch tbl = distinct (map (\<lambda>w. (w_repository_id w, w_branch w)) tbl)"

section \<open>A small deployment\<close>

text \<open>
  One user with one session, an open socket under every number, and a world in which every
  call returns and a directory exists once it has been made. The theorems below are
  instantiated on these values.
\<close>

definition example_user :: User where
  "example_user = \<lparr>u_id = ''u1'', u_email = ''ann@example.org''\<rparr>"

definition example_session :: TerminalSession where
  "example_session =
     \<lparr>ts_id = ''s1'', ts_user_id = ''u1'', ts_container_id = None,
      ts_workspace_path = ''/data/workspaces/u1/s1'', ts_project_name = None,
      ts_status = Running, ts_created_at = 100, ts_last_activity_at = 100\<rparr>"

definition open_socket :: socket where
  "open_socket = \<lparr>readyState = OPEN, sent = [], closed_with = None\<rparr>"

definition example_env :: environment where
  "example_env =
     \<lparr>process_env = [''HOME'' \<mapsto> ''/home/claudelet'', ''PATH'' \<mapsto> ''/usr/bin'',
                     ''ANTHROPIC_API_KEY'' \<mapsto> ''sk-global''],
      claudeConfigPath = ''/data/claude-config'',
      maxSessionsPerUser = 5,
      workspaceBasePath = ''/data/workspaces''\<rparr>"

definition example_world :: world where
  "example_world = \<lparr>existsSync = (\<lambda>h p. MkdirSync p \<in> set h), returns = (\<lambda>h c. True)\<rparr>"

definition example_pty :: IPty where
  "example_pty =
     \<lparr>pty_file = ''/bin/bash'', pty_cwd = ''/data/workspaces/u1/s1'',
      pty_env = [''HOME'' \<mapsto> ''/data/workspaces/u1/s1'', ''CLAUDE_CODE_REMOTE'' \<mapsto> ''1''],
      pty_size = (js_int 80, js_int 24), pty_written = [], pty_killed = False,
      onData = [0], onExit = [(0, ''s1'')]\<rparr>"

definition example_repository :: Repository where
  "example_repository = \<lparr>r_id = ''r1'', r_user_id = ''u1'', r_local_path = ''/data/workspaces/u1/repos/r1''\<rparr>"

definition example_workspace :: Workspace where
  "example_workspace =
     \<lparr>w_id = ''w1'', w_repository_id = ''r1'', w_branch = ''main'',
      w_directory_path = ''/data/workspaces/u1/workspaces/w1''\<rparr>"

definition example_server :: server where
  "example_server =
     \<lparr>activePtys = [''s1'' \<mapsto> 0], ptys = [example_pty],
      activeProcesses = Map.empty, children = [],
      sockets = (\<lambda>k. open_socket),
      terminal_sessions = [example_session],
      auth_sessions = [''tok'' \<mapsto> example_user],
      repositories = [example_repository],
      workspaces = [example_workspace],
      fs_calls = []\<rparr>"

text \<open>The same deployment after a restart of the server: the registries are empty.\<close>

definition restarted_server :: server where
  "restarted_server = example_server\<lparr>activePtys := Map.empty, ptys := []\<rparr>"





text \<open>The deployment while a first message of the user is being answered on socket 0.\<close>

definition busy_server :: server where
  "busy_server =
     fst (handleUserMessage example_env example_world 7000 0 ''s1'' ''/data/workspaces/u1/s1''
            ''u1'' ''hello'' example_server)"

section \<open>Properties of the PTY channel\<close>

lemma own_prop_type_get:
  "own_prop message ''type'' = Some v \<Longrightarrow> get_prop (Some message) ''type'' = Inr (Some v)"
  by (cases message) simp_all

text \<open>
  Claim C2, as the code has it. For a session of the requesting user, the status route
  answers from the registry when it holds the session (\<^verbatim>\<open>running\<close>, with \<^verbatim>\<open>hasActivePty\<close>
  true); when the registry has no entry it answers the persisted status as it is, with
  \<^verbatim>\<open>hasActivePty\<close> false. The route only reads: it returns a reply and no new state.
\<close>

theorem status_reports_persisted_when_unregistered:
  assumes "getTerminalSession (terminal_sessions s) sessionId = Some session"
    and "ts_user_id session = u_id user"
  shows "(activePtys s sessionId = None \<longrightarrow>
            terminal_status user sessionId s =
              Inr \<lparr>sr_sessionId = sessionId, sr_status = ts_status session, sr_hasActivePty = False\<rparr>)
       \<and> (activePtys s sessionId \<noteq> None \<longrightarrow>
            terminal_status user sessionId s =
              Inr \<lparr>sr_sessionId = sessionId, sr_status = Running, sr_hasActivePty = True\<rparr>)"
  using assms by (simp add: terminal_status_def)

text \<open>
  Claim C2 as stated fails after a restart: the session is persisted as \<^verbatim>\<open>running\<close>, the
  registry is empty, and the status route still answers \<^verbatim>\<open>running\<close>, not \<^verbatim>\<open>stopped\<close>.
\<close>

theorem stale_running_counterexample:
  "getTerminalSession (terminal_sessions restarted_server) ''s1'' = Some example_session
   \<and> ts_status example_session = Running
   \<and> activePtys restarted_server ''s1'' = None
   \<and> terminal_status example_user ''s1'' restarted_server =
        Inr \<lparr>sr_sessionId = ''s1'', sr_status = Running, sr_hasActivePty = False\<rparr>"
  by (simp add: terminal_status_def restarted_server_def example_server_def example_session_def
        example_user_def getTerminalSession_def)

text \<open>Claim C2, the amended statement on the restarted deployment.\<close>

theorem status_reports_persisted_when_unregistered_witness:
  "terminal_status example_user ''s1'' restarted_server =
     Inr \<lparr>sr_sessionId = ''s1'', sr_status = ts_status example_session, sr_hasActivePty = False\<rparr>"
proof -
  have a: "getTerminalSession (terminal_sessions restarted_server) ''s1'' = Some example_session"
    by (simp add: restarted_server_def example_server_def example_session_def getTerminalSession_def)
  have b: "ts_user_id example_session = u_id example_user"
    by (simp add: example_session_def example_user_def)
  have c: "activePtys restarted_server ''s1'' = None"
    by (simp add: restarted_server_def)
  show ?thesis
    using status_reports_persisted_when_unregistered [OF a b] c by simp
qed




















section \<open>Properties of the assistant channel\<close>

lemma example_config_dir:
  "getUserClaudeConfigDir example_env ''u1'' = ''/home/claudelet/.claudelet-users/u1''"
  by code_simp

lemma busy_server_facts:
  "activeProcesses busy_server ''s1'' = Some 0"
  "length (children busy_server) = 1"
  "fs_calls busy_server = [MkdirSync ''/home/claudelet/.claudelet-users/u1'']"
  "cp_signals (children busy_server ! 0) = []"
  by (simp_all add: busy_server_def handleUserMessage_def ensureUserConfigDir_def Let_def
      example_server_def example_world_def fs_do_def on_socket_def example_config_dir
      spawn_claude_def split: prod.splits)

text \<open>
  Claim C1 does not hold of the message handler: \<^verbatim>\<open>handleUserMessage\<close> never looks at
  \<^verbatim>\<open>activeProcesses\<close>. When a process is still registered for the session, a further \<^verbatim>\<open>user\<close>
  frame with a non-empty content is accepted: it spawns one more process, leaves the
  earlier one as it was (no signal is sent to it), and replaces the registry entry by the
  new process.
\<close>

theorem user_message_while_thinking_spawns:
  assumes ty: "own_prop message ''type'' = Some (JStr ''user'')"
    and content: "own_prop message ''content'' = Some (JStr content)" "content \<noteq> []"
    and busy: "activeProcesses s sessionId = Some c"
    and live: "c < length (children s)"
    and dir: "existsSync W (fs_calls s) (getUserClaudeConfigDir E userId)"
  shows "\<exists>s'. chat_message E W now k sessionId workspacePath userId (Some message) s = Some s'
           \<and> length (children s') = Suc (length (children s))
           \<and> children s' ! c = children s ! c
           \<and> children s' ! length (children s) = spawn_claude E workspacePath userId content
           \<and> activeProcesses s' sessionId = Some (length (children s))"
proof -
  have ev: "get_prop (Some message) ''type'' = Inr (Some (JStr ''user''))"
    using own_prop_type_get [OF ty] .
  obtain s1 where h: "handleUserMessage E W now k sessionId workspacePath userId content s = (s1, None)"
    using dir by (simp add: handleUserMessage_def ensureUserConfigDir_def Let_def on_socket_def)
  have res: "chat_message E W now k sessionId workspacePath userId (Some message) s
               = Some (fst (handleUserMessage E W now k sessionId workspacePath userId content s))"
    using content by (simp add: chat_message_def ev Let_def h)
  show ?thesis
    unfolding res using busy live dir
    by (simp add: handleUserMessage_def ensureUserConfigDir_def Let_def on_socket_def nth_append)
qed

text \<open>
  Claim C1, the failing input: a second \<^verbatim>\<open>user\<close> frame on the deployment that is still
  answering the first. Two processes are then running for session \<^verbatim>\<open>s1\<close>, neither of
  them signalled, and the registry names the second.
\<close>

theorem user_message_while_thinking_spawns_witness:
  "\<exists>s'. chat_message example_env example_world 8000 0 ''s1'' ''/data/workspaces/u1/s1'' ''u1''
           (Some (JObj [(''type'', JStr ''user''), (''content'', JStr ''again'')])) busy_server
         = Some s'
       \<and> length (children s') = 2
       \<and> cp_signals (children s' ! 0) = []
       \<and> cp_signals (children s' ! 1) = []
       \<and> activeProcesses s' ''s1'' = Some 1"
proof -
  have busy: "activeProcesses busy_server ''s1'' = Some 0" by (rule busy_server_facts)
  have live: "0 < length (children busy_server)" by (simp add: busy_server_facts)
  have dir: "existsSync example_world (fs_calls busy_server)
               (getUserClaudeConfigDir example_env ''u1'')"
    by (simp add: busy_server_facts example_config_dir example_world_def)
  have msg: "own_prop (JObj [(''type'', JStr ''user''), (''content'', JStr ''again'')]) ''type''
               = Some (JStr ''user'')"
    "own_prop (JObj [(''type'', JStr ''user''), (''content'', JStr ''again'')]) ''content''
               = Some (JStr ''again'')"
    "''again'' \<noteq> []"
    by simp_all
  show ?thesis
    using user_message_while_thinking_spawns [OF msg busy live dir, of 8000 0
            "''/data/workspaces/u1/s1''"]
    by (auto simp: busy_server_facts spawn_claude_def)
qed

lemma split_on_nonempty: "split_on c xs \<noteq> []"
  by (induction xs) (auto split: list.splits)

lemma split_on_append: "split_on c (a @ c # b) = split_on c a @ split_on c b"
proof (induction a)
  case Nil
  then show ?case by simp
next
  case (Cons x a)
  obtain h t where ht: "split_on c a = h # t"
    using split_on_nonempty [of c a] by (cases "split_on c a") auto
  show ?case using Cons ht by simp
qed

lemma split_on_no_sep: "c \<notin> set u \<Longrightarrow> split_on c u = [u]"
  by (induction u) auto

lemma join_with_snoc: "xs \<noteq> [] \<Longrightarrow> join_with sep (xs @ [y]) = join_with sep xs @ sep @ y"
  by (induction sep xs rule: join_with.induct) auto

lemma join_with_snoc_nonempty: "y \<noteq> [] \<Longrightarrow> join_with sep (xs @ [y]) \<noteq> []"
  by (induction sep xs rule: join_with.induct) auto

lemma norm_step_plain: "plain_segment u \<Longrightarrow> norm_step a st u = st @ [u]"
  by (simp add: norm_step_def plain_segment_def)

lemma last_plain:
  assumes "plain_segment u"
  shows "last (x @ CHR ''/'' # u) \<noteq> CHR ''/''"
proof -
  have "u \<noteq> []" and "CHR ''/'' \<notin> set u" using assms by (simp_all add: plain_segment_def)
  then have "last u \<noteq> CHR ''/''" using last_in_set [of u] by metis
  then show ?thesis using \<open>u \<noteq> []\<close> by simp
qed

lemma path_normalize_snoc:
  assumes seg: "plain_segment seg" and u: "plain_segment u"
  shows "path_normalize (h @ CHR ''/'' # seg @ CHR ''/'' # u)
           = path_normalize (h @ CHR ''/'' # seg) @ CHR ''/'' # u"
proof -
  define P where "P = h @ CHR ''/'' # seg"
  define Pu where "Pu = h @ CHR ''/'' # seg @ CHR ''/'' # u"
  define ab where "ab = (hd P = CHR ''/'')"
  define S0 where "S0 = foldl (norm_step ab) [] (split_on CHR ''/'' h)"
  have Pu: "Pu = P @ CHR ''/'' # u" by (simp add: P_def Pu_def)
  have nsep: "CHR ''/'' \<notin> set seg" "CHR ''/'' \<notin> set u"
    using seg u by (simp_all add: plain_segment_def)
  have splitP: "split_on CHR ''/'' P = split_on CHR ''/'' h @ [seg]"
    unfolding P_def by (simp add: split_on_append split_on_no_sep nsep)
  have splitPu: "split_on CHR ''/'' Pu = split_on CHR ''/'' h @ [seg, u]"
    unfolding Pu by (simp add: split_on_append splitP split_on_no_sep nsep)
  have ne: "P \<noteq> []" "Pu \<noteq> []" by (simp_all add: P_def Pu_def)
  have hdeq: "(hd Pu = CHR ''/'') = ab" unfolding ab_def Pu using ne(1) by simp
  have SP: "foldl (norm_step ab) [] (split_on CHR ''/'' P) = S0 @ [seg]"
    by (simp add: splitP norm_step_plain [OF seg] S0_def)
  have SPu: "foldl (norm_step ab) [] (split_on CHR ''/'' Pu) = (S0 @ [seg]) @ [u]"
    by (simp add: splitPu norm_step_plain [OF seg] norm_step_plain [OF u] S0_def)
  have q: "join_with ''/'' (S0 @ [seg]) \<noteq> []"
    using seg by (intro join_with_snoc_nonempty) (simp add: plain_segment_def)
  have qu: "join_with ''/'' (S0 @ [seg, u]) = join_with ''/'' (S0 @ [seg]) @ ''/'' @ u"
    using join_with_snoc [of "S0 @ [seg]" "''/''" u] by simp
  have qu_ne: "join_with ''/'' (S0 @ [seg, u]) \<noteq> []"
    using q by (simp only: qu) simp
  have lastP: "last P \<noteq> CHR ''/''" unfolding P_def using last_plain [OF seg] .
  have lastPu: "last Pu \<noteq> CHR ''/''" unfolding Pu using last_plain [OF u] .
  have nP: "path_normalize P = (if ab then ''/'' else []) @ join_with ''/'' (S0 @ [seg])"
    unfolding path_normalize_def Let_def ab_def [symmetric] SP using lastP q ne by simp
  have nPu: "path_normalize Pu
               = (if ab then ''/'' else []) @ join_with ''/'' (S0 @ [seg]) @ ''/'' @ u"
    unfolding path_normalize_def Let_def hdeq SPu using lastPu qu_ne ne by (simp add: qu)
  show ?thesis using nP nPu by (simp add: P_def Pu_def)
qed

lemma env_or_nonempty: "d \<noteq> [] \<Longrightarrow> env_or env x d \<noteq> []"
  by (simp add: env_or_def split: option.splits)

lemma config_dir_of_user:
  assumes "plain_segment userId"
  shows "getUserClaudeConfigDir E userId
           = path_join [env_or (process_env E) ''HOME'' ''/tmp'', ''.claudelet-users''] @ CHR ''/'' # userId"
proof -
  have h: "env_or (process_env E) ''HOME'' ''/tmp'' \<noteq> []" by (rule env_or_nonempty) simp
  have u: "userId \<noteq> []" using assms by (simp add: plain_segment_def)
  have seg: "plain_segment ''.claudelet-users''" by (simp add: plain_segment_def)
  show ?thesis
    using path_normalize_snoc [OF seg assms, of "env_or (process_env E) ''HOME'' ''/tmp''"] h u
    by (simp add: getUserClaudeConfigDir_def path_join_def)
qed

lemma handle_children:
  assumes "snd (handleUserMessage E W now k sessionId workspacePath userId content s) = None"
  shows "children (fst (handleUserMessage E W now k sessionId workspacePath userId content s))
           = children s @ [spawn_claude E workspacePath userId content]"
    and "activeProcesses (fst (handleUserMessage E W now k sessionId workspacePath userId content s))
           sessionId = Some (length (children s))"
  using assms
  by (auto simp: handleUserMessage_def ensureUserConfigDir_def Let_def on_socket_def fs_do_def
           split: prod.splits if_splits)

text \<open>
  Claim C8. Whenever \<^verbatim>\<open>handleUserMessage\<close> gets to spawn the assistant, the process is started
  in the session's workspace path; \<^verbatim>\<open>HOME\<close> and \<^verbatim>\<open>CLAUDE_CONFIG_DIR\<close> are the directory
  \<^verbatim>\<open>.claudelet-users/<user id>\<close> under the server's home, which differs from the directory
  of every other user id; \<^verbatim>\<open>CLAUDE_CODE_REMOTE\<close> is \<^verbatim>\<open>1\<close>; and \<^verbatim>\<open>ANTHROPIC_API_KEY\<close> is not in the
  environment of the process, whatever the environment of the server holds.
\<close>

theorem assistant_spawn_environment:
  assumes "snd (handleUserMessage E W now k sessionId workspacePath userId content s) = None"
  shows "children (fst (handleUserMessage E W now k sessionId workspacePath userId content s))
           = children s @ [spawn_claude E workspacePath userId content]
       \<and> cp_cwd (spawn_claude E workspacePath userId content) = workspacePath
       \<and> cp_env (spawn_claude E workspacePath userId content) ''HOME''
           = Some (getUserClaudeConfigDir E userId)
       \<and> cp_env (spawn_claude E workspacePath userId content) ''CLAUDE_CONFIG_DIR''
           = Some (getUserClaudeConfigDir E userId)
       \<and> cp_env (spawn_claude E workspacePath userId content) ''CLAUDE_CODE_REMOTE'' = Some ''1''
       \<and> cp_env (spawn_claude E workspacePath userId content) ''ANTHROPIC_API_KEY'' = None
       \<and> (\<forall>other. plain_segment userId \<and> plain_segment other \<and> other \<noteq> userId \<longrightarrow>
              getUserClaudeConfigDir E other \<noteq> getUserClaudeConfigDir E userId)"
proof -
  have "getUserClaudeConfigDir E other \<noteq> getUserClaudeConfigDir E userId"
    if "plain_segment userId" "plain_segment other" "other \<noteq> userId" for other
    using that by (simp add: config_dir_of_user)
  then show ?thesis
    using handle_children(1) [OF assms]
    by (simp add: spawn_claude_def claude_env_def Let_def)
qed

lemma example_config_dir2:
  "getUserClaudeConfigDir example_env ''u2'' = ''/home/claudelet/.claudelet-users/u2''"
  by code_simp

text \<open>
  Claim C8 on the small deployment, whose server environment holds an API key.
\<close>

theorem assistant_spawn_environment_witness:
  "children busy_server
     = [spawn_claude example_env ''/data/workspaces/u1/s1'' ''u1'' ''hello'']
   \<and> process_env example_env ''ANTHROPIC_API_KEY'' = Some ''sk-global''
   \<and> cp_env (spawn_claude example_env ''/data/workspaces/u1/s1'' ''u1'' ''hello'') ''ANTHROPIC_API_KEY''
       = None
   \<and> cp_env (spawn_claude example_env ''/data/workspaces/u1/s1'' ''u1'' ''hello'') ''HOME''
       = Some ''/home/claudelet/.claudelet-users/u1''
   \<and> getUserClaudeConfigDir example_env ''u2'' \<noteq> getUserClaudeConfigDir example_env ''u1''"
proof -
  have ok: "snd (handleUserMessage example_env example_world 7000 0 ''s1''
                   ''/data/workspaces/u1/s1'' ''u1'' ''hello'' example_server) = None"
    by (simp add: handleUserMessage_def ensureUserConfigDir_def Let_def example_world_def
          fs_do_def split: prod.splits)
  have plain: "plain_segment ''u1''" "plain_segment ''u2''" "''u2'' \<noteq> ''u1''"
    by (simp_all add: plain_segment_def)
  have nil: "children example_server = []" by (simp add: example_server_def)
  have key: "process_env example_env ''ANTHROPIC_API_KEY'' = Some ''sk-global''"
    by (simp add: example_env_def)
  show ?thesis
    using assistant_spawn_environment [OF ok] plain nil key
    by (simp add: busy_server_def example_config_dir)
qed


















section \<open>Properties of workspace creation\<close>

lemma fs_do_workspaces: "workspaces (snd (fs_do W c s)) = workspaces s"
  by (simp add: fs_do_def)

lemma execGit_workspaces: "workspaces (snd (execGit W args cwd s)) = workspaces s"
  by (simp add: execGit_def fs_do_def)

lemma createWorktree_workspaces:
  "workspaces (snd (createWorktree W repoPath worktreePath branch s)) = workspaces s"
  by (simp add: createWorktree_def execGit_def fs_do_def Let_def split: prod.splits)

lemma removeWorktree_workspaces:
  "workspaces (removeWorktree W repoPath worktreePath s) = workspaces s"
  by (simp add: removeWorktree_def execGit_workspaces)

lemma duplicate_rejected:
  assumes "getWorkspaceByBranch (workspaces s) rid b = Some w"
  shows "\<exists>code msg. create_workspace E W workspaceId user rid (Some b) s
                       = (WorkspaceRejected code msg, s)"
  using assms by (simp add: create_workspace_def split: option.splits)

lemma duplicate_conflict:
  assumes "getWorkspaceByBranch (workspaces s) rid b = Some w"
    and "b \<noteq> []" and "getRepository (repositories s) rid = Some repo"
    and "r_user_id repo = u_id user"
  shows "create_workspace E W workspaceId user rid (Some b) s
           = (WorkspaceRejected 409 ''Workspace already exists for this branch'', s)"
  using assms by (simp add: create_workspace_def)

lemma find_None_pair:
  "getWorkspaceByBranch tbl rid b = None \<Longrightarrow>
   (rid, b) \<notin> set (map (\<lambda>w. (w_repository_id w, w_branch w)) tbl)"
  by (auto simp: getWorkspaceByBranch_def find_None_iff)

lemma create_workspace_table:
  "workspaces (snd (create_workspace E W workspaceId user rid branch s)) = workspaces s
   \<or> (\<exists>b row. branch = Some b \<and> getWorkspaceByBranch (workspaces s) rid b = None
        \<and> w_repository_id row = rid \<and> w_branch row = b
        \<and> workspaces (snd (create_workspace E W workspaceId user rid branch s)) = workspaces s @ [row])"
  by (auto simp: create_workspace_def Let_def split_beta fs_do_workspaces createWorktree_workspaces
        removeWorktree_workspaces createWorkspace_def
        split: option.splits if_splits)

lemma create_workspace_keeps_invariant:
  assumes "one_workspace_per_branch (workspaces s)"
  shows "one_workspace_per_branch (workspaces (snd (create_workspace E W workspaceId user rid branch s)))"
  using create_workspace_table [of E W workspaceId user rid branch s] assms find_None_pair
  by (auto simp: one_workspace_per_branch_def)

text \<open>
  Claim C9. When a Workspace exists for the pair of repository id and branch, a request to
  create one for the same pair is rejected and the state is as before: no call to the file
  system or to git is made and no record is added. For a repository of the requesting user
  the rejection is the conflict 409. Whatever the request, the table of workspaces keeps at
  most one Workspace per pair.
\<close>

theorem duplicate_workspace_rejected:
  "(\<forall>w. getWorkspaceByBranch (workspaces s) rid b = Some w \<longrightarrow>
       (\<exists>code msg. create_workspace E W workspaceId user rid (Some b) s
                      = (WorkspaceRejected code msg, s)))
   \<and> (\<forall>w repo. getWorkspaceByBranch (workspaces s) rid b = Some w \<and> b \<noteq> []
         \<and> getRepository (repositories s) rid = Some repo \<and> r_user_id repo = u_id user \<longrightarrow>
       create_workspace E W workspaceId user rid (Some b) s
         = (WorkspaceRejected 409 ''Workspace already exists for this branch'', s))
   \<and> (one_workspace_per_branch (workspaces s) \<longrightarrow>
       one_workspace_per_branch
         (workspaces (snd (create_workspace E W workspaceId user rid branch s))))"
  using duplicate_rejected [of s rid b _ E W workspaceId user]
    duplicate_conflict [of s rid b _ _ user E W workspaceId]
    create_workspace_keeps_invariant [of s E W workspaceId user rid branch]
  by blast

text \<open>
  Claim C9 on the small deployment: a second Workspace for branch \<^verbatim>\<open>main\<close> of repository
  \<^verbatim>\<open>r1\<close> is refused; one for branch \<^verbatim>\<open>dev\<close> keeps the invariant.
\<close>

theorem duplicate_workspace_rejected_witness:
  "create_workspace example_env example_world ''w2'' example_user ''r1'' (Some ''main'') example_server
     = (WorkspaceRejected 409 ''Workspace already exists for this branch'', example_server)
   \<and> fs_calls (snd (create_workspace example_env example_world ''w2'' example_user ''r1''
                       (Some ''main'') example_server)) = []
   \<and> one_workspace_per_branch
        (workspaces (snd (create_workspace example_env example_world ''w2'' example_user ''r1''
                            (Some ''dev'') example_server)))"
proof -
  have ex: "getWorkspaceByBranch (workspaces example_server) ''r1'' ''main'' = Some example_workspace"
    by (simp add: getWorkspaceByBranch_def example_server_def example_workspace_def)
  have repo: "getRepository (repositories example_server) ''r1'' = Some example_repository"
    by (simp add: getRepository_def example_server_def example_repository_def)
  have own: "r_user_id example_repository = u_id example_user"
    by (simp add: example_repository_def example_user_def)
  have inv: "one_workspace_per_branch (workspaces example_server)"
    by (simp add: one_workspace_per_branch_def example_server_def)
  have calls: "fs_calls example_server = []" by (simp add: example_server_def)
  show ?thesis
    using duplicate_workspace_rejected [of example_server "''r1''" "''main''" example_env example_world
            "''w2''" example_user "Some ''dev''"] ex repo own inv calls
    by simp
qed

lemma bump_rows:
  "updateTerminalSession sid (no_updates\<lparr>set_last_activity_at := Some t\<rparr>) tbl
     = map (\<lambda>r. if ts_id r = sid then r\<lparr>ts_last_activity_at := t\<rparr> else r) tbl"
proof -
  have ne: "no_updates\<lparr>set_last_activity_at := Some t\<rparr> \<noteq> no_updates"
    by (simp add: no_updates_def)
  have row: "apply_updates (no_updates\<lparr>set_last_activity_at := Some t\<rparr>) r
               = r\<lparr>ts_last_activity_at := t\<rparr>" for r
    by (simp add: apply_updates_def no_updates_def)
  show ?thesis by (simp add: updateTerminalSession_def ne row)
qed

text \<open>
  Claim C10. An \<^verbatim>\<open>input\<close> frame whose \<^verbatim>\<open>data\<close> is absent or the empty string leaves the
  whole state as it is: nothing is written to the PTY and the last-activity timestamp is
  not touched. A frame with a non-empty string is written to the connection's PTY, and it
  sets the last-activity timestamp of the rows of the session to the current second, the
  other rows staying as they are. Whenever an \<^verbatim>\<open>input\<close> frame changes the state, its \<^verbatim>\<open>data\<close>
  is a non-empty string.
\<close>

theorem input_without_data_is_noop:
  assumes ty: "own_prop message ''type'' = Some (JStr ''input'')"
  shows "(own_prop message ''data'' = None \<or> own_prop message ''data'' = Some (JStr [])
            \<longrightarrow> terminal_message k sessionId p now (Some message) s = s)
       \<and> (\<forall>d. own_prop message ''data'' = Some (JStr d) \<and> d \<noteq> [] \<and> p < length (ptys s)
            \<longrightarrow> pty_written (ptys (terminal_message k sessionId p now (Some message) s) ! p)
                  = pty_written (ptys s ! p) @ [JStr d])
       \<and> (\<forall>d. own_prop message ''data'' = Some (JStr d) \<and> d \<noteq> []
            \<longrightarrow> terminal_sessions (terminal_message k sessionId p now (Some message) s)
                  = map (\<lambda>r. if ts_id r = sessionId
                              then r\<lparr>ts_last_activity_at := now div 1000\<rparr> else r)
                      (terminal_sessions s))
       \<and> (terminal_message k sessionId p now (Some message) s \<noteq> s
            \<longrightarrow> (\<exists>d. own_prop message ''data'' = Some (JStr d) \<and> d \<noteq> []))"
proof -
  have ev: "get_prop (Some message) ''type'' = Inr (Some (JStr ''input''))"
    using own_prop_type_get [OF ty] .
  have a: "terminal_message k sessionId p now (Some message) s = s"
    if "own_prop message ''data'' = None \<or> own_prop message ''data'' = Some (JStr [])"
    using that by (auto simp: terminal_message_def ev)
  have b: "terminal_message k sessionId p now (Some message) s
             = db_update sessionId (no_updates\<lparr>set_last_activity_at := Some (now div 1000)\<rparr>)
                 (on_pty p (\<lambda>t. t\<lparr>pty_written := pty_written t @ [JStr d]\<rparr>) s)"
    if "own_prop message ''data'' = Some (JStr d)" "d \<noteq> []" for d
    using that by (simp add: terminal_message_def ev)
  have c: "\<exists>d. own_prop message ''data'' = Some (JStr d) \<and> d \<noteq> []"
    if "terminal_message k sessionId p now (Some message) s \<noteq> s"
  proof (cases "own_prop message ''data''")
    case None
    then show ?thesis using that a by simp
  next
    case (Some v)
    then show ?thesis using that
      by (cases v) (auto simp: terminal_message_def ev)
  qed
  show ?thesis
    using a c by (auto simp: b db_update_def on_pty_def bump_rows)
qed

text \<open>
  Claim C10 on the small deployment, whose session was last active at second 100: a frame
  without \<^verbatim>\<open>data\<close> and a frame with empty \<^verbatim>\<open>data\<close> change nothing; a frame carrying \<^verbatim>\<open>ls\<close> at
  millisecond 5000 is written to the PTY and moves the last activity to second 5.
\<close>

theorem input_without_data_is_noop_witness:
  "terminal_message 0 ''s1'' 0 5000 (Some (JObj [(''type'', JStr ''input'')])) example_server
     = example_server
   \<and> terminal_message 0 ''s1'' 0 5000
        (Some (JObj [(''type'', JStr ''input''), (''data'', JStr [])])) example_server
     = example_server
   \<and> map ts_last_activity_at (terminal_sessions example_server) = [100]
   \<and> pty_written (ptys (terminal_message 0 ''s1'' 0 5000
        (Some (JObj [(''type'', JStr ''input''), (''data'', JStr ''ls'')])) example_server) ! 0)
     = [JStr ''ls'']
   \<and> map ts_last_activity_at (terminal_sessions (terminal_message 0 ''s1'' 0 5000
        (Some (JObj [(''type'', JStr ''input''), (''data'', JStr ''ls'')])) example_server))
     = [5]"
  using input_without_data_is_noop [of "JObj [(''type'', JStr ''input'')]" 0 "''s1''" 0 5000 example_server]
    input_without_data_is_noop [of "JObj [(''type'', JStr ''input''), (''data'', JStr [])]"
       0 "''s1''" 0 5000 example_server]
    input_without_data_is_noop [of "JObj [(''type'', JStr ''input''), (''data'', JStr ''ls'')]"
       0 "''s1''" 0 5000 example_server]
  by (simp add: example_server_def example_pty_def example_session_def)

lemma close_handlers_on_registered_process:
  "terminal_close k sessionId s = s
   \<and> (\<forall>c. activeProcesses s sessionId = Some c \<and> c < length (children s) \<longrightarrow>
          cp_signals (children (chat_close k sessionId s) ! c)
            = cp_signals (children s ! c) @ [''SIGTERM'']
          \<and> activeProcesses (chat_close k sessionId s) sessionId = None)
   \<and> (activeProcesses s sessionId = None \<longrightarrow> chat_close k sessionId s = s)"
  by (simp add: terminal_close_def chat_close_def abortCurrentProcess_def on_child_def Let_def)

text \<open>
  Claim C7 does not hold of the assistant channel once a second \<^verbatim>\<open>user\<close> frame has been
  accepted while a process was registered (see claim C1): closing the socket then sends
  \<^verbatim>\<open>SIGTERM\<close> to the second process only and empties the registry. The first process is as it
  was, still in flight and not signalled, and a further close or abort changes nothing.
  The other half of the claim holds: the close handler of the PTY channel changes nothing
  (\<open>close_handlers_on_registered_process\<close>).
\<close>

theorem close_misses_unregistered_process:
  assumes ty: "own_prop message ''type'' = Some (JStr ''user'')"
    and content: "own_prop message ''content'' = Some (JStr content)" "content \<noteq> []"
    and busy: "activeProcesses s sessionId = Some c"
    and live: "c < length (children s)"
    and dir: "existsSync W (fs_calls s) (getUserClaudeConfigDir E userId)"
  shows "\<exists>s'. chat_message E W now k sessionId workspacePath userId (Some message) s = Some s'
           \<and> children (chat_close k sessionId s') ! c = children s ! c
           \<and> cp_signals (children (chat_close k sessionId s') ! length (children s)) = [''SIGTERM'']
           \<and> activeProcesses (chat_close k sessionId s') sessionId = None
           \<and> chat_close k sessionId (chat_close k sessionId s') = chat_close k sessionId s'"
proof -
  have ev: "get_prop (Some message) ''type'' = Inr (Some (JStr ''user''))"
    using own_prop_type_get [OF ty] .
  define s1 where "s1 = fst (handleUserMessage E W now k sessionId workspacePath userId content s)"
  have h: "handleUserMessage E W now k sessionId workspacePath userId content s = (s1, None)"
    using dir unfolding s1_def
    by (simp add: handleUserMessage_def ensureUserConfigDir_def Let_def on_socket_def)
  have res: "chat_message E W now k sessionId workspacePath userId (Some message) s = Some s1"
    using content by (simp add: chat_message_def ev Let_def h)
  have ch: "children s1 = children s @ [spawn_claude E workspacePath userId content]"
    and reg: "activeProcesses s1 sessionId = Some (length (children s))"
    using dir unfolding s1_def
    by (simp_all add: handleUserMessage_def ensureUserConfigDir_def Let_def on_socket_def)
  have neq: "c \<noteq> length (children s)" using live by simp
  have closed: "children (chat_close k sessionId s1)
                  = (children s1)[length (children s) :=
                       (children s1 ! length (children s))\<lparr>cp_signals :=
                          cp_signals (children s1 ! length (children s)) @ [''SIGTERM'']\<rparr>]"
    and unreg: "activeProcesses (chat_close k sessionId s1) sessionId = None"
    by (simp_all add: chat_close_def abortCurrentProcess_def reg on_child_def Let_def ch)
  have again: "chat_close k sessionId (chat_close k sessionId s1) = chat_close k sessionId s1"
    using unreg by (simp add: chat_close_def abortCurrentProcess_def [of sessionId "abortCurrentProcess sessionId s1"])
  show ?thesis
    using res unreg again neq live
    by (simp add: closed ch nth_append spawn_claude_def)
qed

text \<open>
  Claim C7, the failing input: two \<^verbatim>\<open>user\<close> frames on session \<^verbatim>\<open>s1\<close>, then the socket closes.
  The first process has received no signal.
\<close>

theorem close_misses_unregistered_process_witness:
  "\<exists>s'. chat_message example_env example_world 8000 0 ''s1'' ''/data/workspaces/u1/s1'' ''u1''
           (Some (JObj [(''type'', JStr ''user''), (''content'', JStr ''again'')])) busy_server
         = Some s'
       \<and> cp_signals (children (chat_close 0 ''s1'' s') ! 0) = []
       \<and> cp_signals (children (chat_close 0 ''s1'' s') ! 1) = [''SIGTERM'']
       \<and> activeProcesses (chat_close 0 ''s1'' s') ''s1'' = None"
proof -
  have busy: "activeProcesses busy_server ''s1'' = Some 0" by (rule busy_server_facts)
  have live: "0 < length (children busy_server)" by (simp add: busy_server_facts)
  have dir: "existsSync example_world (fs_calls busy_server)
               (getUserClaudeConfigDir example_env ''u1'')"
    by (simp add: busy_server_facts example_config_dir example_world_def)
  have msg: "own_prop (JObj [(''type'', JStr ''user''), (''content'', JStr ''again'')]) ''type''
               = Some (JStr ''user'')"
    "own_prop (JObj [(''type'', JStr ''user''), (''content'', JStr ''again'')]) ''content''
               = Some (JStr ''again'')"
    "''again'' \<noteq> []"
    by simp_all
  show ?thesis
    using close_misses_unregistered_process [OF msg busy live dir, of 8000 0
            "''/data/workspaces/u1/s1''"]
    by (auto simp: busy_server_facts)
qed

section \<open>Properties of session creation\<close>








end
